theory Spec2Isabelle
  imports Complex_Main "HOL-Library.Word" "HOL-Library.AList"
begin

section \<open>scripts/steps\_chart.py: data model\<close>

text \<open>
  The script reads a log, extracts seven numeric fields with regular expressions, checks the
  extracted columns for consistency, groups consecutive records by their step count, computes
  derived columns and writes a CSV file.

  Modelling decisions.
  \<^item> The integer columns are numpy arrays of 64-bit integers: \<open>64 word\<close>, read as two's
    complement by \<open>sint\<close>; \<open>*\<close> wraps around as the array product of line 74 does. A log with
    an integer that does not fit 64 bits is outside the model.
  \<^item> A floating point value is a \<open>float64\<close>: a finite number, an infinity or NaN. The
    operations follow IEEE 754 on the special values and on a division by zero, and are
    exact on finite numbers: the rounding of a finite result, its overflow to an infinity and
    the sign of a zero are outside the model.
  \<^item> Exceptions are values of the type \<open>error\<close>; a function that raises returns \<open>Inl\<close>.
\<close>

type_synonym i64 = "64 word"

datatype error =
    ConfigError \<comment> \<open>line 107: \<^verbatim>\<open>Exception('Can specify at most one --peak-* flag')\<close>\<close>
  | AssertionError nat \<comment> \<open>a failed \<^verbatim>\<open>assert\<close>, with the line of the statement\<close>
  | ValueError nat nat \<comment> \<open>not enough values to unpack (expected, got)\<close>
  | FileNotFoundError \<comment> \<open>line 64: \<^verbatim>\<open>open(filename)\<close> on a missing file\<close>

section \<open>float64\<close>

text \<open>
  \<^verbatim>\<open>float\<close> of a matched text is finite, or an infinity when the number is too large
  (\<^verbatim>\<open>float('1e999')\<close>); a peak parameter can be any float. numpy warns on a division by
  zero and on an invalid operation, and returns the IEEE result.
\<close>

datatype float64 = Finite real | PosInf | NegInf | NaN

fun fneg :: "float64 \<Rightarrow> float64" where
  "fneg (Finite x) = Finite (- x)"
| "fneg PosInf = NegInf"
| "fneg NegInf = PosInf"
| "fneg NaN = NaN"

fun fadd :: "float64 \<Rightarrow> float64 \<Rightarrow> float64" where
  "fadd (Finite x) (Finite y) = Finite (x + y)"
| "fadd NaN y = NaN"
| "fadd x NaN = NaN"
| "fadd PosInf NegInf = NaN"
| "fadd NegInf PosInf = NaN"
| "fadd PosInf y = PosInf"
| "fadd x PosInf = PosInf"
| "fadd NegInf y = NegInf"
| "fadd x NegInf = NegInf"

definition fsub :: "float64 \<Rightarrow> float64 \<Rightarrow> float64" where
  "fsub x y = fadd x (fneg y)"

fun fmul :: "float64 \<Rightarrow> float64 \<Rightarrow> float64" where
  "fmul (Finite x) (Finite y) = Finite (x * y)"
| "fmul NaN y = NaN"
| "fmul x NaN = NaN"
| "fmul (Finite x) PosInf = (if x = 0 then NaN else if 0 < x then PosInf else NegInf)"
| "fmul (Finite x) NegInf = (if x = 0 then NaN else if 0 < x then NegInf else PosInf)"
| "fmul PosInf (Finite y) = (if y = 0 then NaN else if 0 < y then PosInf else NegInf)"
| "fmul NegInf (Finite y) = (if y = 0 then NaN else if 0 < y then NegInf else PosInf)"
| "fmul PosInf PosInf = PosInf"
| "fmul PosInf NegInf = NegInf"
| "fmul NegInf PosInf = NegInf"
| "fmul NegInf NegInf = PosInf"

fun fdiv :: "float64 \<Rightarrow> float64 \<Rightarrow> float64" where
  "fdiv (Finite x) (Finite y) =
     (if y = 0 then (if x = 0 then NaN else if 0 < x then PosInf else NegInf)
      else Finite (x / y))"
| "fdiv NaN y = NaN"
| "fdiv x NaN = NaN"
| "fdiv (Finite x) PosInf = Finite 0"
| "fdiv (Finite x) NegInf = Finite 0"
| "fdiv PosInf (Finite y) = (if y < 0 then NegInf else PosInf)"
| "fdiv NegInf (Finite y) = (if y < 0 then PosInf else NegInf)"
| "fdiv PosInf PosInf = NaN"
| "fdiv PosInf NegInf = NaN"
| "fdiv NegInf PosInf = NaN"
| "fdiv NegInf NegInf = NaN"

fun fsqrt :: "float64 \<Rightarrow> float64" where
  "fsqrt (Finite x) = (if x < 0 then NaN else Finite (sqrt x))"
| "fsqrt PosInf = PosInf"
| "fsqrt NegInf = NaN"
| "fsqrt NaN = NaN"

section \<open>same (lines 36-37)\<close>

text \<open>
  \<^verbatim>\<open>all(value == values[0] for value in values)\<close>: on an empty sequence the generator
  never evaluates \<^verbatim>\<open>values[0]\<close> and the result is \<open>True\<close>.
\<close>

fun same :: "'a list \<Rightarrow> bool" where
  "same [] = True"
| "same (v0 # vs) = list_all (\<lambda>v. v = v0) (v0 # vs)"

section \<open>group\_by (lines 39-51)\<close>

text \<open>
  The generator's two variables \<^verbatim>\<open>last_key\<close> and \<^verbatim>\<open>last_group\<close> start as \<^verbatim>\<open>None\<close>;
  the list returned is the sequence of pairs the generator yields. \<open>yield_group\<close> is the
  guarded \<^verbatim>\<open>yield\<close> of lines 44-45 and 50-51. Keys are never \<^verbatim>\<open>None\<close>, so
  \<^verbatim>\<open>key != last_key\<close> holds at the first record. Two states are unreachable
  (a group without a key, an append to no group); the model yields nothing in the first
  and keeps \<open>None\<close> in the second.
\<close>

definition yield_group :: "'k option \<Rightarrow> 'v list option \<Rightarrow> ('k \<times> 'v list) list" where
  "yield_group last_key last_group =
     (case last_group of
        None \<Rightarrow> []
      | Some g \<Rightarrow> (case last_key of None \<Rightarrow> [] | Some k \<Rightarrow> [(k, g)]))"

fun group_by_loop ::
  "'k option \<Rightarrow> 'v list option \<Rightarrow> ('k \<times> 'v) list \<Rightarrow> ('k \<times> 'v list) list" where
  "group_by_loop last_key last_group [] = yield_group last_key last_group"
| "group_by_loop last_key last_group ((key, val) # rest) =
     (if Some key \<noteq> last_key
      then yield_group last_key last_group @ group_by_loop (Some key) (Some [val]) rest
      else group_by_loop (Some key) (map_option (\<lambda>g. g @ [val]) last_group) rest)"

definition group_by :: "'k list \<Rightarrow> 'v list \<Rightarrow> ('k \<times> 'v list) list" where
  "group_by keys vals = group_by_loop None None (zip keys vals)"

text \<open>The records of a list of groups, each with its group's key, in order.\<close>

definition ungroup :: "('k \<times> 'v list) list \<Rightarrow> ('k \<times> 'v) list" where
  "ungroup gs = concat (map (\<lambda>(k, g). map (Pair k) g) gs)"

section \<open>The table (lines 26-34, 64-68)\<close>

text \<open>
  \<^verbatim>\<open>_columns\<close> fixes the seven fields, their order and their types: \<^verbatim>\<open>elapsed\<close> is
  converted by \<^verbatim>\<open>float\<close>, the other six by \<^verbatim>\<open>int\<close>. The table built at lines 66-68 has
  exactly these keys, so it is a record of seven columns. A log is represented by what
  \<^verbatim>\<open>re.finditer\<close> and the conversions extract from its text (a text on which a conversion
  raises is outside the model); a CSV file by its header and its rows of cells.
\<close>

record columns =
  elapsed :: "float64 list"
  iterations :: "i64 list"
  steps :: "i64 list"
  tasks :: "i64 list"
  flops :: "i64 list"
  bytes :: "i64 list"
  width :: "i64 list"

text \<open>Line 77 adds the keys \<^verbatim>\<open>std\<close> and \<^verbatim>\<open>reps\<close>, in this order.\<close>

record table = columns +
  std :: "float64 list"
  reps :: "i64 list"

datatype column = IntCol "i64 list" | FloatCol "float64 list"

datatype cell =
    IntCell i64 \<comment> \<open>written by \<^verbatim>\<open>csv.writer\<close> as \<^verbatim>\<open>str(x)\<close>\<close>
  | SciCell float64 \<comment> \<open>written as \<^verbatim>\<open>'%e' % x\<close> (lines 96-97)\<close>

datatype content = Log columns | Csv "string list" "cell list list"

type_synonym filesystem = "string \<rightharpoonup> content"

text \<open>
  Lines 64-68. The lines of a CSV file written by this script match none of the seven
  patterns.
\<close>

fun parse :: "content \<Rightarrow> columns" where
  "parse (Log table) = table"
| "parse (Csv header rows) =
     \<lparr>elapsed = [], iterations = [], steps = [], tasks = [], flops = [], bytes = [],
      width = []\<rparr>"

section \<open>Library functions\<close>

text \<open>
  The conversion of an int64 entry to float64 in a mixed operation, and that of a Python
  integer (\<^verbatim>\<open>nodes\<close>, \<^verbatim>\<open>cores\<close>, a length).
\<close>

definition i2f :: "i64 \<Rightarrow> float64" where
  "i2f x = Finite (real_of_int (sint x))"

definition int2f :: "int \<Rightarrow> float64" where
  "int2f n = Finite (real_of_int n)"

text \<open>
  \<^verbatim>\<open>numpy.mean\<close> and \<^verbatim>\<open>numpy.std\<close> with their default arguments (\<^verbatim>\<open>ddof=0\<close>): the
  mean is the sum divided by the number of entries; the standard deviation is the square
  root of the mean of \<^verbatim>\<open>x * x\<close> for \<^verbatim>\<open>x = a - mean(a)\<close>. The order in which
  \<^verbatim>\<open>numpy.sum\<close> adds is immaterial for exact finite numbers. Since finite results are
  not rounded here, a value that numpy rounds can differ: of \<open>(0.1, 0.1, 0.1)\<close> numpy's
  standard deviation is about \<open>1.4e-17\<close>, as the mean is rounded, and the model's is 0.
  The statements below are identities in these operations, or values of examples in which
  every intermediate result is an exact binary fraction, or the special cases of one finite
  or one infinite number, where IEEE arithmetic is exact too.
\<close>

definition numpy_sum :: "float64 list \<Rightarrow> float64" where
  "numpy_sum a = foldl fadd (Finite 0) a"

definition numpy_mean :: "float64 list \<Rightarrow> float64" where
  "numpy_mean a = fdiv (numpy_sum a) (int2f (int (length a)))"

definition numpy_std :: "float64 list \<Rightarrow> float64" where
  "numpy_std a =
     fsqrt (numpy_mean (map (\<lambda>x. fmul (fsub x (numpy_mean a)) (fsub x (numpy_mean a))) a))"

text \<open>
  \<^verbatim>\<open>numpy.resize(a, (n,))\<close>: zeros when \<open>a\<close> is empty or \<open>n = 0\<close>, otherwise
  \<open>ceil (n / size a)\<close> copies of \<open>a\<close> cut to \<open>n\<close> elements.
\<close>

definition numpy_resize :: "i64 list \<Rightarrow> nat \<Rightarrow> i64 list" where
  "numpy_resize a n =
     (if a = [] \<or> n = 0 then replicate n 0
      else take n (concat (replicate ((n + length a - 1) div length a) a)))"

text \<open>\<^verbatim>\<open>zip(*columns)\<close>: the rows of a list of columns, as many as the shortest column has.\<close>

definition zip_star :: "'a list list \<Rightarrow> 'a list list" where
  "zip_star cols =
     (case cols of
        [] \<Rightarrow> []
      | _ \<Rightarrow> map (\<lambda>i. map (\<lambda>c. c ! i) cols) [0..<min_list (map length cols)])"

text \<open>
  \<^verbatim>\<open>os.path.splitext(p)[0]\<close> (posixpath): \<open>p\<close> up to the last dot of its last
  component, when a character other than a dot precedes that dot in the component;
  otherwise \<open>p\<close>.
\<close>

definition splitext_root :: "string \<Rightarrow> string" where
  "splitext_root p =
     (let after = dropWhile (\<lambda>c. c \<noteq> CHR ''.'') (takeWhile (\<lambda>c. c \<noteq> CHR ''/'') (rev p))
      in if after \<noteq> [] \<and> list_ex (\<lambda>c. c \<noteq> CHR ''.'') (tl after)
         then rev (tl after @ dropWhile (\<lambda>c. c \<noteq> CHR ''/'') (rev p))
         else p)"

text \<open>
  Truth value of an optional float: \<^verbatim>\<open>None\<close> and \<open>0.0\<close> are false, everything else is
  true, NaN included.
\<close>

fun truthy :: "float64 option \<Rightarrow> bool" where
  "truthy None = False"
| "truthy (Some x) = (x \<noteq> Finite 0)"

section \<open>analyze (lines 53-103)\<close>

subsection \<open>The derived columns (lines 54-61)\<close>

type_synonym formula = "table \<Rightarrow> float64 list"

definition compute ::
  "int \<Rightarrow> int \<Rightarrow> float64 option \<Rightarrow> float64 option \<Rightarrow> (string \<times> formula) list" where
  "compute nodes cores peak_flops peak_bytes =
     [(''time_per_task'',
       \<lambda>t. map2 (\<lambda>e k. fmul (fmul (fmul (fdiv e (i2f k)) (int2f nodes)) (int2f cores))
                            (int2f 1000))
                 (elapsed t) (tasks t))]
     @ (if truthy peak_flops
        then [(''efficiency'',
               \<lambda>t. map2 (\<lambda>f e. fdiv (fdiv (fdiv (i2f f) e) (int2f nodes)) (the peak_flops))
                         (flops t) (elapsed t))]
        else if truthy peak_bytes
        then [(''efficiency'',
               \<lambda>t. map2 (\<lambda>b e. fdiv (fdiv (fdiv (i2f b) e) (int2f nodes)) (the peak_bytes))
                         (bytes t) (elapsed t))]
        else [])"

subsection \<open>Check consistency of data (lines 71-74)\<close>

definition check_consistency :: "columns \<Rightarrow> error option" where
  "check_consistency table =
     (if \<not> same [length (elapsed table), length (iterations table), length (steps table),
                 length (tasks table), length (flops table), length (bytes table),
                 length (width table)]
      then Some (AssertionError 71)
      else if \<not> same (iterations table) then Some (AssertionError 72)
      else if \<not> same (width table) then Some (AssertionError 73)
      else if \<not> list_all (\<lambda>(t, s, w). t = s * w)
                    (zip (tasks table) (zip (steps table) (width table)))
      then Some (AssertionError 74)
      else None)"

subsection \<open>Group by step count and compute statistics (lines 77-88)\<close>

text \<open>
  A record's values that are grouped: elapsed, tasks, flops, bytes. The row of one group
  (line 79): \<^verbatim>\<open>zip(*vs)\<close> splits the group into its four columns; of an empty group it
  yields nothing, and unpacking it into four names raises.
\<close>

type_synonym measurement = "float64 \<times> i64 \<times> i64 \<times> i64"

type_synonym row = "i64 \<times> float64 \<times> float64 \<times> i64 \<times> i64 \<times> i64 \<times> i64 \<times> bool \<times> bool \<times> bool"

definition records :: "columns \<Rightarrow> measurement list" where
  "records table = zip (elapsed table) (zip (tasks table) (zip (flops table) (bytes table)))"

definition elapsed_of :: "measurement list \<Rightarrow> float64 list" where
  "elapsed_of vs = map (\<lambda>(e, t, f, b). e) vs"

definition tasks_of :: "measurement list \<Rightarrow> i64 list" where
  "tasks_of vs = map (\<lambda>(e, t, f, b). t) vs"

definition flops_of :: "measurement list \<Rightarrow> i64 list" where
  "flops_of vs = map (\<lambda>(e, t, f, b). f) vs"

definition bytes_of :: "measurement list \<Rightarrow> i64 list" where
  "bytes_of vs = map (\<lambda>(e, t, f, b). b) vs"

definition group_row :: "i64 \<times> measurement list \<Rightarrow> error + row" where
  "group_row kvs =
     (case kvs of (k, vs) \<Rightarrow>
        if vs = [] then Inl (ValueError 4 0)
        else
          let elapsed = elapsed_of vs; tasks = tasks_of vs;
              flops = flops_of vs; bytes = bytes_of vs
          in Inr (k, numpy_mean elapsed, numpy_std elapsed, of_nat (length elapsed),
                  hd tasks, hd flops, hd bytes, same tasks, same flops, same bytes))"

text \<open>A list comprehension raises at the first element that raises.\<close>

fun collect :: "(error + 'a) list \<Rightarrow> error + 'a list" where
  "collect [] = Inr []"
| "collect (Inl e # rs) = Inl e"
| "collect (Inr x # rs) = (case collect rs of Inl e \<Rightarrow> Inl e | Inr xs \<Rightarrow> Inr (x # xs))"

definition groups :: "columns \<Rightarrow> (i64 \<times> measurement list) list" where
  "groups table = group_by (steps table) (records table)"

definition aggregate :: "columns \<Rightarrow> error + table" where
  "aggregate table =
     (case collect (map group_row (groups table)) of
        Inl e \<Rightarrow> Inl e
      | Inr rows \<Rightarrow>
          if rows = [] then Inl (ValueError 10 0)
          else if \<not> list_all (\<lambda>(k, m, s, n, t, f, b, same_tasks, same_flops, same_bytes).
                                 same_tasks) rows
          then Inl (AssertionError 83)
          else if \<not> list_all (\<lambda>(k, m, s, n, t, f, b, same_tasks, same_flops, same_bytes).
                                 same_flops) rows
          then Inl (AssertionError 84)
          else if \<not> list_all (\<lambda>(k, m, s, n, t, f, b, same_tasks, same_flops, same_bytes).
                                 same_bytes) rows
          then Inl (AssertionError 85)
          else Inr
            \<lparr>elapsed = map (\<lambda>(k, m, s, n, t, f, b, st, sf, sb). m) rows,
             iterations = numpy_resize (iterations table) (length rows),
             steps = map (\<lambda>(k, m, s, n, t, f, b, st, sf, sb). k) rows,
             tasks = map (\<lambda>(k, m, s, n, t, f, b, st, sf, sb). t) rows,
             flops = map (\<lambda>(k, m, s, n, t, f, b, st, sf, sb). f) rows,
             bytes = map (\<lambda>(k, m, s, n, t, f, b, st, sf, sb). b) rows,
             width = numpy_resize (width table) (length rows),
             std = map (\<lambda>(k, m, s, n, t, f, b, st, sf, sb). s) rows,
             reps = map (\<lambda>(k, m, s, n, t, f, b, st, sf, sb). n) rows\<rparr>)"

subsection \<open>Compute derived columns (lines 90-92)\<close>

text \<open>
  The ordered dictionary after line 88, in insertion order: the seven keys of
  \<^verbatim>\<open>_columns\<close>, then \<^verbatim>\<open>std\<close> and \<^verbatim>\<open>reps\<close>. Assigning to a key keeps its place if it is
  present and appends it otherwise, which is \<^const>\<open>AList.update\<close>.
\<close>

definition items :: "table \<Rightarrow> (string \<times> column) list" where
  "items t =
     [(''elapsed'', FloatCol (elapsed t)), (''iterations'', IntCol (iterations t)),
      (''steps'', IntCol (steps t)), (''tasks'', IntCol (tasks t)),
      (''flops'', IntCol (flops t)), (''bytes'', IntCol (bytes t)),
      (''width'', IntCol (width t)), (''std'', FloatCol (std t)),
      (''reps'', IntCol (reps t))]"

definition derive :: "(string \<times> formula) list \<Rightarrow> table \<Rightarrow> (string \<times> column) list" where
  "derive formulas t =
     fold (\<lambda>(k, f) tbl. AList.update k (FloatCol (f t)) tbl) formulas (items t)"

subsection \<open>Post-process and write (lines 94-103)\<close>

text \<open>
  A column with a float in it is formatted with \<^verbatim>\<open>%e\<close>: the float columns are
  float64 arrays, so all their entries are; an empty one has no entry to format. The
  integer columns are left to the writer. The header is the keys, the rows are
  \<^verbatim>\<open>zip(*values)\<close>.
\<close>

fun cells :: "column \<Rightarrow> cell list" where
  "cells (IntCol c) = map IntCell c"
| "cells (FloatCol c) = map SciCell c"

definition write_csv :: "(string \<times> column) list \<Rightarrow> content" where
  "write_csv tbl = Csv (map fst tbl) (zip_star (map (\<lambda>(k, c). cells c) tbl))"

subsection \<open>The function\<close>

text \<open>
  The result is the exception raised, if any, and the file system afterwards. The only
  write is the last statement, so a run that raises leaves the file system as it was.
\<close>

definition analyze ::
  "string \<Rightarrow> int \<Rightarrow> int \<Rightarrow> float64 \<Rightarrow> float64 option \<Rightarrow> float64 option \<Rightarrow> filesystem
   \<Rightarrow> (error + unit) \<times> filesystem" where
  "analyze filename nodes cores threshold peak_flops peak_bytes fs =
     (case fs filename of
        None \<Rightarrow> (Inl FileNotFoundError, fs)
      | Some f \<Rightarrow>
          (case check_consistency (parse f) of
             Some e \<Rightarrow> (Inl e, fs)
           | None \<Rightarrow>
               (case aggregate (parse f) of
                  Inl e \<Rightarrow> (Inl e, fs)
                | Inr t \<Rightarrow>
                    (Inr (),
                     fs(splitext_root filename @ ''.csv'' \<mapsto>
                        write_csv (derive (compute nodes cores peak_flops peak_bytes) t))))))"

section \<open>driver (lines 105-109)\<close>

fun driver_loop ::
  "string list \<Rightarrow> int \<Rightarrow> int \<Rightarrow> float64 \<Rightarrow> float64 option \<Rightarrow> float64 option \<Rightarrow> filesystem
   \<Rightarrow> (error + unit) \<times> filesystem" where
  "driver_loop [] nodes cores threshold peak_flops peak_bytes fs = (Inr (), fs)"
| "driver_loop (filename # inputs) nodes cores threshold peak_flops peak_bytes fs =
     (case analyze filename nodes cores threshold peak_flops peak_bytes fs of
        (Inl e, fs') \<Rightarrow> (Inl e, fs')
      | (Inr u, fs') \<Rightarrow> driver_loop inputs nodes cores threshold peak_flops peak_bytes fs')"

definition driver ::
  "string list \<Rightarrow> string option \<Rightarrow> int \<Rightarrow> int \<Rightarrow> float64 \<Rightarrow> float64 option \<Rightarrow> float64 option
   \<Rightarrow> filesystem \<Rightarrow> (error + unit) \<times> filesystem" where
  "driver inputs summary nodes cores threshold peak_flops peak_bytes fs =
     (if peak_flops \<noteq> None \<and> peak_bytes \<noteq> None then (Inl ConfigError, fs)
      else driver_loop inputs nodes cores threshold peak_flops peak_bytes fs)"

section \<open>Example inputs\<close>

text \<open>
  Six logs, as extracted: a consistent one with two groups; one whose task count is not
  steps times width; one whose first group has two different FLOP counts; one in which no
  pattern matches; one whose task count is not steps times width but equals it modulo
  \<open>2^64\<close>; and one whose elapsed time is \<^verbatim>\<open>1e999\<close>, which \<^verbatim>\<open>float\<close> reads as infinity.
  \<open>example_table\<close> is the aggregation of the first.
\<close>

definition example_log :: columns where
  "example_log =
     \<lparr>elapsed = [Finite 1, Finite 3, Finite 5], iterations = [10, 10, 10], steps = [4, 4, 8],
      tasks = [8, 8, 16], flops = [100, 100, 200], bytes = [50, 50, 60], width = [2, 2, 2]\<rparr>"

definition bad_tasks_log :: columns where
  "bad_tasks_log =
     \<lparr>elapsed = [Finite 1], iterations = [10], steps = [4], tasks = [9],
      flops = [100], bytes = [50], width = [2]\<rparr>"

definition mixed_flops_log :: columns where
  "mixed_flops_log =
     \<lparr>elapsed = [Finite 1, Finite 3], iterations = [10, 10], steps = [4, 4], tasks = [8, 8],
      flops = [100, 101], bytes = [50, 50], width = [2, 2]\<rparr>"

definition empty_log :: columns where
  "empty_log =
     \<lparr>elapsed = [], iterations = [], steps = [], tasks = [], flops = [], bytes = [],
      width = []\<rparr>"

definition overflow_log :: columns where
  "overflow_log =
     \<lparr>elapsed = [Finite 1], iterations = [10], steps = [4294967297], tasks = [4294967296],
      flops = [100], bytes = [50], width = [4294967296]\<rparr>"

definition inf_log :: columns where
  "inf_log =
     \<lparr>elapsed = [PosInf], iterations = [10], steps = [4], tasks = [8],
      flops = [100], bytes = [50], width = [2]\<rparr>"

definition example_fs :: filesystem where
  "example_fs =
     [''run.log'' \<mapsto> Log example_log, ''bad.log'' \<mapsto> Log bad_tasks_log,
      ''mixed.log'' \<mapsto> Log mixed_flops_log, ''empty.log'' \<mapsto> Log empty_log,
      ''overflow.log'' \<mapsto> Log overflow_log, ''inf.log'' \<mapsto> Log inf_log]"

definition example_table :: table where
  "example_table =
     \<lparr>elapsed = [Finite 2, Finite 5], iterations = [10, 10], steps = [4, 8],
      tasks = [8, 16], flops = [100, 200], bytes = [50, 60], width = [2, 2],
      std = [Finite 1, Finite 0], reps = [2, 1]\<rparr>"

section \<open>Properties of group\_by\<close>

lemma yield_group_simps [simp]:
  "yield_group None None = []"
  "yield_group (Some k) (Some g) = [(k, g)]"
  by (simp_all add: yield_group_def)

lemma ungroup_simps:
  "ungroup [] = []"
  "ungroup ((k, g) # gs) = map (Pair k) g @ ungroup gs"
  by (simp_all add: ungroup_def)

lemma group_by_loop_ungroup:
  "ungroup (group_by_loop (Some k) (Some g) kvs) = map (Pair k) g @ kvs"
proof (induction kvs arbitrary: k g)
  case Nil
  then show ?case by (simp add: ungroup_simps)
next
  case (Cons kv kvs)
  obtain key val where kv: "kv = (key, val)" by (cases kv)
  show ?case
    using Cons.IH [of key "[val]"] Cons.IH [of k "g @ [val]"]
    by (auto simp: kv ungroup_simps)
qed

lemma group_by_loop_nonempty:
  "g \<noteq> [] \<Longrightarrow> [] \<notin> snd ` set (group_by_loop (Some k) (Some g) kvs)"
proof (induction kvs arbitrary: k g)
  case Nil
  then show ?case by simp
next
  case (Cons kv kvs)
  obtain key val where kv: "kv = (key, val)" by (cases kv)
  show ?case
    using Cons.prems Cons.IH [of "[val]" key] Cons.IH [of "g @ [val]" k]
    by (auto simp: kv)
qed

lemma group_by_loop_keys:
  "map fst (group_by_loop (Some k) (Some g) kvs) = remdups_adj (k # map fst kvs)"
proof (induction kvs arbitrary: k g)
  case Nil
  then show ?case by simp
next
  case (Cons kv kvs)
  obtain key val where kv: "kv = (key, val)" by (cases kv)
  show ?case
    using Cons.IH [of key "[val]"] Cons.IH [of k "g @ [val]"]
    by (auto simp: kv)
qed

lemma group_by_loop_None_ungroup: "ungroup (group_by_loop None None kvs) = kvs"
proof (cases kvs)
  case Nil
  then show ?thesis by (simp add: ungroup_simps)
next
  case (Cons kv rest)
  then show ?thesis
    by (cases kv) (simp add: group_by_loop_ungroup)
qed

lemma group_by_loop_None_nonempty: "[] \<notin> snd ` set (group_by_loop None None kvs)"
proof (cases kvs)
  case Nil
  then show ?thesis by simp
next
  case (Cons kv rest)
  obtain key val where kv: "kv = (key, val)" by (cases kv)
  show ?thesis
    using group_by_loop_nonempty [of "[val]" key rest]
    by (simp add: Cons kv)
qed

lemma group_by_loop_None_keys:
  "map fst (group_by_loop None None kvs) = remdups_adj (map fst kvs)"
proof (cases kvs)
  case Nil
  then show ?thesis by simp
next
  case (Cons kv rest)
  then show ?thesis
    by (cases kv) (simp add: group_by_loop_keys)
qed

lemma group_by_ungroup: "ungroup (group_by keys vals) = zip keys vals"
  by (simp add: group_by_def group_by_loop_None_ungroup)

lemma group_by_nonempty: "[] \<notin> snd ` set (group_by keys vals)"
  unfolding group_by_def by (rule group_by_loop_None_nonempty)

lemma group_by_keys: "map fst (group_by keys vals) = remdups_adj (map fst (zip keys vals))"
  by (simp add: group_by_def group_by_loop_None_keys)

section \<open>Properties of the stages of analyze\<close>

subsection \<open>The consistency checks\<close>

lemma same_iff: "same xs \<longleftrightarrow> (\<forall>x\<in>set xs. \<forall>y\<in>set xs. x = y)"
proof (cases xs)
  case Nil
  then show ?thesis by simp
next
  case (Cons v0 vs)
  have "(\<forall>v\<in>set vs. v = v0) \<longleftrightarrow> (\<forall>x\<in>set (v0 # vs). \<forall>y\<in>set (v0 # vs). x = y)"
    by auto metis
  then show ?thesis by (simp add: Cons list_all_iff)
qed

lemma same_lengths:
  "same [a, b, c, d, e, f, g :: nat] \<longleftrightarrow> b = a \<and> c = a \<and> d = a \<and> e = a \<and> f = a \<and> g = a"
  by auto

lemma list_all_products:
  "length ss = length ts \<Longrightarrow> length ws = length ts \<Longrightarrow>
   list_all (\<lambda>(t, s, w). t = s * w) (zip ts (zip ss ws)) \<longleftrightarrow>
   (\<forall>i<length ts. ts ! i = ss ! i * ws ! i)"
  by (simp add: list_all_length)

lemma check_consistency_unfold:
  "check_consistency c =
     (if \<not> (length (iterations c) = length (elapsed c) \<and> length (steps c) = length (elapsed c)
            \<and> length (tasks c) = length (elapsed c) \<and> length (flops c) = length (elapsed c)
            \<and> length (bytes c) = length (elapsed c) \<and> length (width c) = length (elapsed c))
      then Some (AssertionError 71)
      else if \<not> (\<forall>x\<in>set (iterations c). \<forall>y\<in>set (iterations c). x = y)
      then Some (AssertionError 72)
      else if \<not> (\<forall>x\<in>set (width c). \<forall>y\<in>set (width c). x = y)
      then Some (AssertionError 73)
      else if \<not> (\<forall>i<length (tasks c). tasks c ! i = steps c ! i * width c ! i)
      then Some (AssertionError 74)
      else None)"
proof (cases "length (iterations c) = length (elapsed c) \<and> length (steps c) = length (elapsed c)
            \<and> length (tasks c) = length (elapsed c) \<and> length (flops c) = length (elapsed c)
            \<and> length (bytes c) = length (elapsed c) \<and> length (width c) = length (elapsed c)")
  case True
  then have "list_all (\<lambda>(t, s, w). t = s * w) (zip (tasks c) (zip (steps c) (width c))) \<longleftrightarrow>
   (\<forall>i<length (tasks c). tasks c ! i = steps c ! i * width c ! i)"
    by (intro list_all_products) simp_all
  with True show ?thesis
    unfolding check_consistency_def same_lengths same_iff by simp
next
  case False
  then show ?thesis
    unfolding check_consistency_def same_lengths by auto
qed

text \<open>
  On an existing file the four checks are made in the order of lines 71-74, each on the
  condition that the earlier ones hold; a failed check raises and nothing is written. The
  product of check (4) is that of 64-bit words.
\<close>

lemma analyze_checks_in_order:
  assumes "fs filename = Some f"
  shows "analyze filename nodes cores threshold peak_flops peak_bytes fs =
     (if \<not> (length (iterations (parse f)) = length (elapsed (parse f))
            \<and> length (steps (parse f)) = length (elapsed (parse f))
            \<and> length (tasks (parse f)) = length (elapsed (parse f))
            \<and> length (flops (parse f)) = length (elapsed (parse f))
            \<and> length (bytes (parse f)) = length (elapsed (parse f))
            \<and> length (width (parse f)) = length (elapsed (parse f)))
      then (Inl (AssertionError 71), fs)
      else if \<not> (\<forall>x\<in>set (iterations (parse f)). \<forall>y\<in>set (iterations (parse f)). x = y)
      then (Inl (AssertionError 72), fs)
      else if \<not> (\<forall>x\<in>set (width (parse f)). \<forall>y\<in>set (width (parse f)). x = y)
      then (Inl (AssertionError 73), fs)
      else if \<not> (\<forall>i<length (tasks (parse f)).
                    tasks (parse f) ! i = steps (parse f) ! i * width (parse f) ! i)
      then (Inl (AssertionError 74), fs)
      else (case aggregate (parse f) of
              Inl e \<Rightarrow> (Inl e, fs)
            | Inr t \<Rightarrow>
                (Inr (),
                 fs(splitext_root filename @ ''.csv'' \<mapsto>
                    write_csv (derive (compute nodes cores peak_flops peak_bytes) t)))))"
  unfolding analyze_def assms option.case check_consistency_unfold [of "parse f"]
  by (simp only: if_distrib [of "case_option _ _"] option.case if_cancel cong: if_cong)

subsection \<open>Aggregation\<close>

lemma length_elapsed_of [simp]: "length (elapsed_of vs) = length vs"
  by (simp add: elapsed_of_def)

lemma group_row_nonempty:
  "vs \<noteq> [] \<Longrightarrow> group_row (k, vs) =
     Inr (k, numpy_mean (elapsed_of vs), numpy_std (elapsed_of vs), of_nat (length vs),
          hd (tasks_of vs), hd (flops_of vs), hd (bytes_of vs),
          same (tasks_of vs), same (flops_of vs), same (bytes_of vs))"
  by (simp add: group_row_def Let_def)

lemma collect_map_Inr:
  "(\<And>x. x \<in> set xs \<Longrightarrow> f x = Inr (g x)) \<Longrightarrow> collect (map f xs) = Inr (map g xs)"
  by (induction xs) simp_all

lemma groups_nonempty: "(k, vs) \<in> set (groups c) \<Longrightarrow> vs \<noteq> []"
  using group_by_nonempty [of "steps c" "records c"] by (force simp: groups_def)

lemma collect_group_rows:
  "collect (map group_row (groups c)) =
     Inr (map (\<lambda>(k, vs). (k, numpy_mean (elapsed_of vs), numpy_std (elapsed_of vs),
                 of_nat (length vs), hd (tasks_of vs), hd (flops_of vs), hd (bytes_of vs),
                 same (tasks_of vs), same (flops_of vs), same (bytes_of vs))) (groups c))"
proof (rule collect_map_Inr)
  fix x assume x: "x \<in> set (groups c)"
  obtain k vs where kvs: "x = (k, vs)" by (cases x)
  have "vs \<noteq> []" using x by (auto simp: kvs dest: groups_nonempty)
  then show "group_row x = Inr (case x of (k, vs) \<Rightarrow>
      (k, numpy_mean (elapsed_of vs), numpy_std (elapsed_of vs),
                 of_nat (length vs), hd (tasks_of vs), hd (flops_of vs), hd (bytes_of vs),
                 same (tasks_of vs), same (flops_of vs), same (bytes_of vs)))"
    by (simp add: kvs group_row_nonempty)
qed

lemma aggregate_unfold:
  "aggregate c =
     (if groups c = [] then Inl (ValueError 10 0)
      else if \<not> list_all (\<lambda>(k, vs). same (tasks_of vs)) (groups c) then Inl (AssertionError 83)
      else if \<not> list_all (\<lambda>(k, vs). same (flops_of vs)) (groups c) then Inl (AssertionError 84)
      else if \<not> list_all (\<lambda>(k, vs). same (bytes_of vs)) (groups c) then Inl (AssertionError 85)
      else Inr
        \<lparr>elapsed = map (\<lambda>(k, vs). numpy_mean (elapsed_of vs)) (groups c),
         iterations = numpy_resize (iterations c) (length (groups c)),
         steps = map fst (groups c),
         tasks = map (\<lambda>(k, vs). hd (tasks_of vs)) (groups c),
         flops = map (\<lambda>(k, vs). hd (flops_of vs)) (groups c),
         bytes = map (\<lambda>(k, vs). hd (bytes_of vs)) (groups c),
         width = numpy_resize (width c) (length (groups c)),
         std = map (\<lambda>(k, vs). numpy_std (elapsed_of vs)) (groups c),
         reps = map (\<lambda>(k, vs). of_nat (length vs)) (groups c)\<rparr>)"
  by (simp add: aggregate_def collect_group_rows list.pred_map comp_def split_def)

lemma aggregate_empty_groups: "groups c = [] \<Longrightarrow> aggregate c = Inl (ValueError 10 0)"
  by (simp add: aggregate_unfold)

lemma aggregate_Inr_fields:
  assumes "aggregate c = Inr t"
  shows "elapsed t = map (\<lambda>(k, vs). numpy_mean (elapsed_of vs)) (groups c)"
    and "tasks t = map (\<lambda>(k, vs). hd (tasks_of vs)) (groups c)"
    and "flops t = map (\<lambda>(k, vs). hd (flops_of vs)) (groups c)"
    and "bytes t = map (\<lambda>(k, vs). hd (bytes_of vs)) (groups c)"
    and "steps t = map fst (groups c)"
    and "reps t = map (\<lambda>(k, vs). of_nat (length vs)) (groups c)"
    and "std t = map (\<lambda>(k, vs). numpy_std (elapsed_of vs)) (groups c)"
    and "groups c \<noteq> []"
    and "list_all (\<lambda>(k, vs). same (tasks_of vs)) (groups c)"
    and "list_all (\<lambda>(k, vs). same (flops_of vs)) (groups c)"
    and "list_all (\<lambda>(k, vs). same (bytes_of vs)) (groups c)"
  using assms by (auto simp: aggregate_unfold split: if_splits)

lemma numpy_std_unfold:
  "numpy_std a =
     fsqrt (fdiv (numpy_sum (map (\<lambda>x. fmul (fsub x (numpy_mean a)) (fsub x (numpy_mean a))) a))
                 (int2f (int (length a))))"
  by (simp add: numpy_std_def numpy_mean_def)

lemma numpy_std_single_finite: "numpy_std [Finite x] = Finite 0"
  by (simp add: numpy_std_def numpy_mean_def numpy_sum_def int2f_def fsub_def)

lemma numpy_std_single_not_finite: "\<forall>y. x \<noteq> Finite y \<Longrightarrow> numpy_std [x] = NaN"
  by (cases x) (simp_all add: numpy_std_def numpy_mean_def numpy_sum_def int2f_def fsub_def)

lemma numpy_mean_single: "numpy_mean [x] = x"
  by (cases x) (simp_all add: numpy_mean_def numpy_sum_def int2f_def)

lemma homogeneous_iff:
  "same (tasks_of vs) \<and> same (flops_of vs) \<and> same (bytes_of vs)
     \<longleftrightarrow> (\<forall>x\<in>set vs. \<forall>y\<in>set vs. snd x = snd y)"
  unfolding same_iff tasks_of_def flops_of_def bytes_of_def
  by (auto simp: split_def prod_eq_iff)

lemma divergence_iff:
  "(\<exists>(k, vs)\<in>set gs. \<exists>x\<in>set vs. \<exists>y\<in>set vs. snd x \<noteq> snd y)
     \<longleftrightarrow> \<not> (list_all (\<lambda>(k, vs). same (tasks_of vs)) gs
            \<and> list_all (\<lambda>(k, vs). same (flops_of vs)) gs
            \<and> list_all (\<lambda>(k, vs). same (bytes_of vs)) gs)"
proof -
  have "(list_all (\<lambda>(k, vs). same (tasks_of vs)) gs
            \<and> list_all (\<lambda>(k, vs). same (flops_of vs)) gs
            \<and> list_all (\<lambda>(k, vs). same (bytes_of vs)) gs)
      \<longleftrightarrow> (\<forall>g\<in>set gs. same (tasks_of (snd g)) \<and> same (flops_of (snd g))
                          \<and> same (bytes_of (snd g)))"
    unfolding list_all_iff split_def by blast
  also have "\<dots> \<longleftrightarrow> (\<forall>g\<in>set gs. \<forall>x\<in>set (snd g). \<forall>y\<in>set (snd g). snd x = snd y)"
    unfolding homogeneous_iff ..
  finally show ?thesis
    unfolding split_def by blast
qed

lemma aggregate_divergent:
  assumes "\<exists>(k, vs)\<in>set (groups c). \<exists>x\<in>set vs. \<exists>y\<in>set vs. snd x \<noteq> snd y"
  shows "aggregate c \<in> {Inl (AssertionError 83), Inl (AssertionError 84), Inl (AssertionError 85)}"
proof -
  have ne: "groups c \<noteq> []" using assms by auto
  have "\<not> (list_all (\<lambda>(k, vs). same (tasks_of vs)) (groups c)
            \<and> list_all (\<lambda>(k, vs). same (flops_of vs)) (groups c)
            \<and> list_all (\<lambda>(k, vs). same (bytes_of vs)) (groups c))"
    using assms unfolding divergence_iff .
  with ne show ?thesis
    by (auto simp: aggregate_unfold)
qed

lemma hd_of_group:
  "vs \<noteq> [] \<Longrightarrow> hd (tasks_of vs) = fst (snd (hd vs))"
  "vs \<noteq> [] \<Longrightarrow> hd (flops_of vs) = fst (snd (snd (hd vs)))"
  "vs \<noteq> [] \<Longrightarrow> hd (bytes_of vs) = snd (snd (snd (hd vs)))"
  by (simp_all add: tasks_of_def flops_of_def bytes_of_def hd_map split_def)

subsection \<open>Derived columns\<close>

lemma map_of_derive_compute:
  "map_of (derive (compute nodes cores pf pb) t) ''time_per_task''
     = Some (FloatCol (map2 (\<lambda>e k. fmul (fmul (fmul (fdiv e (i2f k)) (int2f nodes))
                                              (int2f cores)) (int2f 1000))
                            (elapsed t) (tasks t)))"
  "map_of (derive (compute nodes cores pf pb) t) ''elapsed'' = Some (FloatCol (elapsed t))"
  "map_of (derive (compute nodes cores pf pb) t) ''tasks'' = Some (IntCol (tasks t))"
  "map_of (derive (compute nodes cores pf pb) t) ''flops'' = Some (IntCol (flops t))"
  "map_of (derive (compute nodes cores pf pb) t) ''bytes'' = Some (IntCol (bytes t))"
  "map_of (derive (compute nodes cores pf pb) t) ''std'' = Some (FloatCol (std t))"
  by (simp_all add: derive_def compute_def items_def)

lemma map2_nth_upt:
  "length xs = n \<Longrightarrow> length ys = n \<Longrightarrow>
   map2 f xs ys = map (\<lambda>i. f (xs ! i) (ys ! i)) [0..<n]"
  by (auto simp: list_eq_iff_nth_eq)

lemma compute_zero_peak:
  "compute nodes cores (Some (Finite 0)) None = compute nodes cores None None"
  "compute nodes cores None (Some (Finite 0)) = compute nodes cores None None"
  by (simp_all add: compute_def)

subsection \<open>Parameters that are not read\<close>

lemma analyze_threshold:
  "analyze filename nodes cores threshold peak_flops peak_bytes fs =
   analyze filename nodes cores threshold' peak_flops peak_bytes fs"
  by (simp add: analyze_def)

lemma driver_loop_threshold:
  "driver_loop inputs nodes cores threshold peak_flops peak_bytes fs =
   driver_loop inputs nodes cores threshold' peak_flops peak_bytes fs"
proof (induction inputs arbitrary: fs)
  case Nil
  then show ?case by simp
next
  case (Cons filename inputs)
  show ?case
    using Cons.IH
      analyze_threshold [of filename nodes cores threshold peak_flops peak_bytes fs threshold']
    by (simp split: prod.splits sum.splits)
qed

lemma analyze_cong_compute:
  "compute nodes cores pf pb = compute nodes cores pf' pb' \<Longrightarrow>
   analyze filename nodes cores threshold pf pb fs
     = analyze filename nodes cores threshold pf' pb' fs"
  by (simp add: analyze_def cong: option.case_cong sum.case_cong)

lemma driver_loop_cong_compute:
  "compute nodes cores pf pb = compute nodes cores pf' pb' \<Longrightarrow>
   driver_loop inputs nodes cores threshold pf pb fs
     = driver_loop inputs nodes cores threshold pf' pb' fs"
proof (induction inputs arbitrary: fs)
  case Nil
  then show ?case by simp
next
  case (Cons filename inputs)
  show ?case
    using Cons.IH [OF Cons.prems]
      analyze_cong_compute [OF Cons.prems, of filename threshold fs]
    by (simp split: prod.splits sum.splits)
qed

subsection \<open>The example inputs, evaluated\<close>

lemma groups_example_log:
  "groups example_log
     = [(4, [(Finite 1, 8, 100, 50), (Finite 3, 8, 100, 50)]), (8, [(Finite 5, 16, 200, 60)])]"
  by (simp add: groups_def records_def example_log_def group_by_def)

lemma numpy_std_example:
  "numpy_std [Finite 1, Finite 3] = Finite 1" "numpy_mean [Finite 1, Finite 3] = Finite 2"
  by (simp_all add: numpy_std_def numpy_mean_def numpy_sum_def int2f_def fsub_def)

lemma aggregate_example: "aggregate example_log = Inr example_table"
proof -
  have "numpy_resize (iterations example_log) (Suc (Suc 0)) = [10, 10]"
    and "numpy_resize (width example_log) (Suc (Suc 0)) = [2, 2]"
    by (simp_all add: example_log_def numpy_resize_def)
  then show ?thesis
    by (simp add: aggregate_unfold groups_example_log elapsed_of_def tasks_of_def
        flops_of_def bytes_of_def numpy_std_example numpy_std_single_finite
        numpy_mean_single example_table_def)
qed

lemma check_example_log: "check_consistency example_log = None"
  by (simp add: check_consistency_def example_log_def)

lemma bad_tasks_log_rejected:
  "analyze ''bad.log'' 2 4 (Finite (1/2)) None None example_fs
     = (Inl (AssertionError 74), example_fs)"
proof -
  have h: "example_fs ''bad.log'' = Some (Log bad_tasks_log)"
    by (simp add: example_fs_def)
  show ?thesis
    using analyze_checks_in_order
            [where fs = example_fs and filename = "''bad.log''" and f = "Log bad_tasks_log",
             OF h, of 2 4 "Finite (1/2)" None None]
    by (simp add: bad_tasks_log_def)
qed

lemma check_mixed: "check_consistency mixed_flops_log = None"
  by (simp add: check_consistency_def mixed_flops_log_def)

lemma groups_mixed:
  "groups mixed_flops_log = [(4, [(Finite 1, 8, 100, 50), (Finite 3, 8, 101, 50)])]"
  by (simp add: groups_def records_def mixed_flops_log_def group_by_def)

lemma check_overflow: "check_consistency overflow_log = None"
  by (simp add: check_consistency_def overflow_log_def)

lemma groups_overflow: "groups overflow_log = [(4294967297, [(Finite 1, 4294967296, 100, 50)])]"
  by (simp add: groups_def records_def overflow_log_def group_by_def)

lemma aggregate_overflow:
  "aggregate overflow_log
     = Inr \<lparr>elapsed = [Finite 1], iterations = [10], steps = [4294967297],
            tasks = [4294967296], flops = [100], bytes = [50], width = [4294967296],
            std = [Finite 0], reps = [1]\<rparr>"
proof -
  have "numpy_resize (iterations overflow_log) (Suc 0) = [10]"
    and "numpy_resize (width overflow_log) (Suc 0) = [4294967296]"
    by (simp_all add: overflow_log_def numpy_resize_def)
  then show ?thesis
    by (simp add: aggregate_unfold groups_overflow elapsed_of_def tasks_of_def
        flops_of_def bytes_of_def numpy_std_single_finite numpy_mean_single)
qed

lemma check_inf: "check_consistency inf_log = None"
  by (simp add: check_consistency_def inf_log_def)

lemma groups_inf: "groups inf_log = [(4, [(PosInf, 8, 100, 50)])]"
  by (simp add: groups_def records_def inf_log_def group_by_def)

lemma aggregate_inf:
  "aggregate inf_log
     = Inr \<lparr>elapsed = [PosInf], iterations = [10], steps = [4], tasks = [8], flops = [100],
            bytes = [50], width = [2], std = [NaN], reps = [1]\<rparr>"
proof -
  have "numpy_resize (iterations inf_log) (Suc 0) = [10]"
    and "numpy_resize (width inf_log) (Suc 0) = [2]"
    by (simp_all add: inf_log_def numpy_resize_def)
  moreover have "numpy_std [PosInf] = NaN"
    by (rule numpy_std_single_not_finite) simp
  ultimately show ?thesis
    by (simp add: aggregate_unfold groups_inf elapsed_of_def tasks_of_def
        flops_of_def bytes_of_def numpy_mean_single)
qed

lemma splitext_examples:
  "splitext_root ''run.log'' = ''run''"
  "splitext_root ''overflow.log'' = ''overflow''"
  "splitext_root ''inf.log'' = ''inf''"
  by (simp_all add: splitext_root_def)

lemma zip_star_two_rows:
  "zip_star [[a1, a2], [b1, b2], [c1, c2], [d1, d2], [e1, e2], [f1, f2], [g1, g2], [h1, h2],
             [i1, i2], [j1, j2]]
     = [[a1, b1, c1, d1, e1, f1, g1, h1, i1, j1], [a2, b2, c2, d2, e2, f2, g2, h2, i2, j2]]"
  by (simp add: zip_star_def upt_rec)

lemma zip_star_one_row:
  "zip_star [[a1], [b1], [c1], [d1], [e1], [f1], [g1], [h1], [i1], [j1]]
     = [[a1, b1, c1, d1, e1, f1, g1, h1, i1, j1]]"
  by (simp add: zip_star_def upt_rec)

section \<open>The claims\<close>

text \<open>
  C1. Grouping is by adjacency. The groups, flattened, are the records in their order, each
  under its own key; no group is empty; two neighbouring groups never have the same key. So
  a group ends exactly where the next record's key differs, and the keys of the groups are
  the keys of the records with adjacent repetitions removed: one group per maximal run. On
  the keys \<open>[1,1,2,1]\<close> there are three groups, the key 1 twice.
\<close>

theorem group_by_adjacent_runs:
  "ungroup (group_by keys vals) = zip keys vals
   \<and> [] \<notin> snd ` set (group_by keys vals)
   \<and> distinct_adj (map fst (group_by keys vals))
   \<and> map fst (group_by keys vals) = remdups_adj (map fst (zip keys vals))
   \<and> length (group_by keys vals) = length (remdups_adj (map fst (zip keys vals)))
   \<and> group_by [1, 1, 2, 1 :: int] [a, b, c, d] = [(1, [a, b]), (2, [c]), (1, [d])]"
proof -
  have keys: "map fst (group_by keys vals) = remdups_adj (map fst (zip keys vals))"
    by (rule group_by_keys)
  have len: "length (group_by keys vals) = length (remdups_adj (map fst (zip keys vals)))"
    using arg_cong [OF keys, of length] by simp
  have ex: "group_by [1, 1, 2, 1 :: int] [a, b, c, d] = [(1, [a, b]), (2, [c]), (1, [d])]"
    by (simp add: group_by_def)
  show ?thesis
    using group_by_ungroup [of keys vals] group_by_nonempty [of keys vals] keys len ex
    by simp
qed

text \<open>
  C2. The claim holds of the order of the checks and of what a failed check leaves behind
  (\<open>analyze_checks_in_order\<close>), but check (4) is not the equality the claim states: line 74
  multiplies two int64 arrays, and the product wraps around. In the log below the one
  record has \<open>4294967297\<close> steps of width \<open>4294967296\<close> and \<open>4294967296\<close> tasks, which is
  not steps times width; the product modulo \<open>2^64\<close> is \<open>4294967296\<close>, the check passes and
  the CSV is written.
\<close>

theorem overflow_passes_task_check:
  "sint (hd (tasks overflow_log)) \<noteq> sint (hd (steps overflow_log)) * sint (hd (width overflow_log))
   \<and> check_consistency overflow_log = None
   \<and> analyze ''overflow.log'' 2 4 (Finite (1/2)) None None example_fs
       = (Inr (),
          example_fs(''overflow.csv'' \<mapsto>
            Csv [''elapsed'', ''iterations'', ''steps'', ''tasks'', ''flops'', ''bytes'',
                 ''width'', ''std'', ''reps'', ''time_per_task'']
                [[SciCell (Finite 1), IntCell 10, IntCell 4294967297, IntCell 4294967296,
                  IntCell 100, IntCell 50, IntCell 4294967296, SciCell (Finite 0), IntCell 1,
                  SciCell (Finite (125 / 67108864))]]))"
proof -
  have n: "sint (hd (tasks overflow_log))
             \<noteq> sint (hd (steps overflow_log)) * sint (hd (width overflow_log))"
    by (simp add: overflow_log_def)
  have h: "example_fs ''overflow.log'' = Some (Log overflow_log)"
    by (simp add: example_fs_def)
  have w: "write_csv (derive (compute 2 4 None None)
             \<lparr>elapsed = [Finite 1], iterations = [10], steps = [4294967297],
              tasks = [4294967296], flops = [100], bytes = [50], width = [4294967296],
              std = [Finite 0], reps = [1]\<rparr>)
     = Csv [''elapsed'', ''iterations'', ''steps'', ''tasks'', ''flops'', ''bytes'',
                 ''width'', ''std'', ''reps'', ''time_per_task'']
                [[SciCell (Finite 1), IntCell 10, IntCell 4294967297, IntCell 4294967296,
                  IntCell 100, IntCell 50, IntCell 4294967296, SciCell (Finite 0), IntCell 1,
                  SciCell (Finite (125 / 67108864))]]"
    by (simp add: derive_def compute_def items_def i2f_def int2f_def write_csv_def
        zip_star_one_row)
  show ?thesis
    using n by (simp add: analyze_def h check_overflow aggregate_overflow w splitext_examples)
qed

text \<open>
  C3, as amended. When exactly one peak parameter is given and its value is not zero, the
  table after line 92 is the nine aggregated columns, then \<open>time_per_task\<close>, then one
  \<open>efficiency\<close> column: \<open>(flops / elapsed / nodes) / peak_flops\<close> per row with a peak
  compute bandwidth, \<open>(bytes / elapsed / nodes) / peak_bytes\<close> per row with a peak memory
  bandwidth. When neither is given there is no \<open>efficiency\<close> column. None of the nine
  aggregated columns is named \<open>efficiency\<close>.
\<close>

theorem efficiency_column_when_peak_nonzero:
  "(pf \<noteq> Finite 0 \<longrightarrow>
      derive (compute nodes cores (Some pf) None) t
        = items t
          @ [(''time_per_task'',
              FloatCol (map2 (\<lambda>e k. fmul (fmul (fmul (fdiv e (i2f k)) (int2f nodes))
                                            (int2f cores)) (int2f 1000))
                             (elapsed t) (tasks t))),
             (''efficiency'',
              FloatCol (map2 (\<lambda>f e. fdiv (fdiv (fdiv (i2f f) e) (int2f nodes)) pf)
                             (flops t) (elapsed t)))])
   \<and> (pb \<noteq> Finite 0 \<longrightarrow>
      derive (compute nodes cores None (Some pb)) t
        = items t
          @ [(''time_per_task'',
              FloatCol (map2 (\<lambda>e k. fmul (fmul (fmul (fdiv e (i2f k)) (int2f nodes))
                                            (int2f cores)) (int2f 1000))
                             (elapsed t) (tasks t))),
             (''efficiency'',
              FloatCol (map2 (\<lambda>b e. fdiv (fdiv (fdiv (i2f b) e) (int2f nodes)) pb)
                             (bytes t) (elapsed t)))])
   \<and> derive (compute nodes cores None None) t
        = items t
          @ [(''time_per_task'',
              FloatCol (map2 (\<lambda>e k. fmul (fmul (fmul (fdiv e (i2f k)) (int2f nodes))
                                            (int2f cores)) (int2f 1000))
                             (elapsed t) (tasks t)))]
   \<and> map fst (items t)
        = [''elapsed'', ''iterations'', ''steps'', ''tasks'', ''flops'', ''bytes'', ''width'',
           ''std'', ''reps'']"
  by (simp add: derive_def compute_def items_def)

text \<open>Witness for C3: peak 4 on the example table, with 2 nodes of 4 cores.\<close>

theorem efficiency_column_when_peak_nonzero_witness:
  "Finite 4 \<noteq> Finite 0
   \<and> derive (compute 2 4 (Some (Finite 4)) None) example_table
       = items example_table
         @ [(''time_per_task'', FloatCol [Finite 2000, Finite 2500]),
            (''efficiency'', FloatCol [Finite (25 / 4), Finite 5])]
   \<and> derive (compute 2 4 None (Some (Finite 4))) example_table
       = items example_table
         @ [(''time_per_task'', FloatCol [Finite 2000, Finite 2500]),
            (''efficiency'', FloatCol [Finite (25 / 8), Finite (3 / 2)])]"
  using efficiency_column_when_peak_nonzero [of "Finite 4" 2 4 example_table "Finite 4"]
  by (simp add: example_table_def i2f_def int2f_def)

text \<open>
  Counterexample to C3 as stated: with a peak compute bandwidth of 0.0 and no peak memory
  bandwidth, exactly one peak parameter is configured, and the CSV written has no
  \<open>efficiency\<close> column.
\<close>

theorem zero_peak_no_efficiency_counterexample:
  "analyze ''run.log'' 2 4 (Finite (1/2)) (Some (Finite 0)) None example_fs
     = (Inr (),
        example_fs(''run.csv'' \<mapsto>
          Csv [''elapsed'', ''iterations'', ''steps'', ''tasks'', ''flops'', ''bytes'',
               ''width'', ''std'', ''reps'', ''time_per_task'']
              [[SciCell (Finite 2), IntCell 10, IntCell 4, IntCell 8, IntCell 100, IntCell 50,
                IntCell 2, SciCell (Finite 1), IntCell 2, SciCell (Finite 2000)],
               [SciCell (Finite 5), IntCell 10, IntCell 8, IntCell 16, IntCell 200,
                IntCell 60, IntCell 2, SciCell (Finite 0), IntCell 1,
                SciCell (Finite 2500)]]))"
proof -
  have h: "example_fs ''run.log'' = Some (Log example_log)"
    by (simp add: example_fs_def)
  have d: "derive (compute 2 4 (Some (Finite 0)) None) example_table
     = items example_table @ [(''time_per_task'', FloatCol [Finite 2000, Finite 2500])]"
    by (simp add: derive_def compute_def items_def example_table_def i2f_def int2f_def)
  have w: "write_csv (derive (compute 2 4 (Some (Finite 0)) None) example_table)
     = Csv [''elapsed'', ''iterations'', ''steps'', ''tasks'', ''flops'', ''bytes'',
               ''width'', ''std'', ''reps'', ''time_per_task'']
              [[SciCell (Finite 2), IntCell 10, IntCell 4, IntCell 8, IntCell 100, IntCell 50,
                IntCell 2, SciCell (Finite 1), IntCell 2, SciCell (Finite 2000)],
               [SciCell (Finite 5), IntCell 10, IntCell 8, IntCell 16, IntCell 200,
                IntCell 60, IntCell 2, SciCell (Finite 0), IntCell 1,
                SciCell (Finite 2500)]]"
    unfolding d by (simp add: write_csv_def items_def example_table_def zip_star_two_rows)
  show ?thesis
    by (simp add: analyze_def h check_example_log aggregate_example w splitext_examples)
qed

text \<open>
  C4. When both peak parameters are given, \<open>driver\<close> raises the configuration error
  whatever the inputs are, and the file system is unchanged: no input is opened (a missing
  input raises nothing) and nothing is written.
\<close>

theorem both_peaks_is_configuration_error:
  "driver inputs summary nodes cores threshold (Some pf) (Some pb) fs = (Inl ConfigError, fs)"
  by (simp add: driver_def)

text \<open>
  C5. After a successful aggregation the column \<open>time_per_task\<close> has one entry per group,
  and the entry of row \<open>i\<close> is \<open>elapsed / tasks * nodes * cores * 1000\<close> for the \<open>elapsed\<close>
  and \<open>tasks\<close> entries of row \<open>i\<close> of the aggregated table, which are the mean elapsed time
  and the first task count of group \<open>i\<close>. It is computed whatever the peak parameters are.
\<close>

theorem time_per_task_formula:
  assumes "aggregate c = Inr t"
  shows "map_of (derive (compute nodes cores peak_flops peak_bytes) t) ''time_per_task''
           = Some (FloatCol
               (map (\<lambda>i. fmul (fmul (fmul (fdiv (elapsed t ! i) (i2f (tasks t ! i)))
                                            (int2f nodes)) (int2f cores)) (int2f 1000))
                    [0..<length (groups c)]))
     \<and> elapsed t = map (\<lambda>(k, vs). numpy_mean (elapsed_of vs)) (groups c)
     \<and> tasks t = map (\<lambda>(k, vs). hd (tasks_of vs)) (groups c)"
proof -
  have e: "elapsed t = map (\<lambda>(k, vs). numpy_mean (elapsed_of vs)) (groups c)"
    and k: "tasks t = map (\<lambda>(k, vs). hd (tasks_of vs)) (groups c)"
    using aggregate_Inr_fields(1,2) [OF assms] by simp_all
  have "length (elapsed t) = length (groups c)" "length (tasks t) = length (groups c)"
    by (simp_all add: e k)
  then have "map2 (\<lambda>e k. fmul (fmul (fmul (fdiv e (i2f k)) (int2f nodes)) (int2f cores))
                           (int2f 1000)) (elapsed t) (tasks t)
      = map (\<lambda>i. fmul (fmul (fmul (fdiv (elapsed t ! i) (i2f (tasks t ! i)))
                                   (int2f nodes)) (int2f cores)) (int2f 1000))
            [0..<length (groups c)]"
    by (rule map2_nth_upt)
  then show ?thesis
    using map_of_derive_compute(1) [of nodes cores peak_flops peak_bytes t] e k by simp
qed

text \<open>Witness for C5: the example log with 2 nodes of 4 cores.\<close>

theorem time_per_task_formula_witness:
  "aggregate example_log = Inr example_table
   \<and> map_of (derive (compute 2 4 None None) example_table) ''time_per_task''
       = Some (FloatCol [Finite 2000, Finite 2500])"
proof -
  have h: "aggregate example_log = Inr example_table" by (rule aggregate_example)
  show ?thesis
    using h time_per_task_formula [OF h, of 2 4 None None]
    by (simp add: groups_example_log example_table_def upt_rec i2f_def int2f_def
        elapsed_of_def tasks_of_def numpy_std_example numpy_mean_single)
qed

text \<open>
  C6. A group is homogeneous when all its records agree on tasks, flops and bytes (the
  second component of a record). If some group is not homogeneous, \<open>analyze\<close> raises and
  writes nothing; if the consistency checks pass, the exception is one of the assertions of
  lines 83-85. If the aggregation succeeds, every group is homogeneous and the aggregated
  \<open>tasks\<close>, \<open>flops\<close> and \<open>bytes\<close> are those of the first record of each group.
\<close>

theorem group_homogeneity_enforced:
  assumes "fs filename = Some f"
  shows "((\<exists>(k, vs)\<in>set (groups (parse f)). \<exists>x\<in>set vs. \<exists>y\<in>set vs. snd x \<noteq> snd y) \<longrightarrow>
            (\<exists>e. analyze filename nodes cores threshold peak_flops peak_bytes fs = (Inl e, fs)))
     \<and> (check_consistency (parse f) = None
          \<and> (\<exists>(k, vs)\<in>set (groups (parse f)). \<exists>x\<in>set vs. \<exists>y\<in>set vs. snd x \<noteq> snd y) \<longrightarrow>
            analyze filename nodes cores threshold peak_flops peak_bytes fs
              \<in> {(Inl (AssertionError 83), fs), (Inl (AssertionError 84), fs),
                  (Inl (AssertionError 85), fs)})
     \<and> (\<forall>t. aggregate (parse f) = Inr t \<longrightarrow>
            (\<forall>(k, vs)\<in>set (groups (parse f)). \<forall>x\<in>set vs. \<forall>y\<in>set vs. snd x = snd y)
            \<and> tasks t = map (\<lambda>(k, vs). fst (snd (hd vs))) (groups (parse f))
            \<and> flops t = map (\<lambda>(k, vs). fst (snd (snd (hd vs)))) (groups (parse f))
            \<and> bytes t = map (\<lambda>(k, vs). snd (snd (snd (hd vs)))) (groups (parse f)))"
proof (intro conjI impI allI)
  assume d: "\<exists>(k, vs)\<in>set (groups (parse f)). \<exists>x\<in>set vs. \<exists>y\<in>set vs. snd x \<noteq> snd y"
  show "\<exists>e. analyze filename nodes cores threshold peak_flops peak_bytes fs = (Inl e, fs)"
    using aggregate_divergent [OF d]
    by (auto simp: analyze_def assms split: option.splits)
next
  assume "check_consistency (parse f) = None
          \<and> (\<exists>(k, vs)\<in>set (groups (parse f)). \<exists>x\<in>set vs. \<exists>y\<in>set vs. snd x \<noteq> snd y)"
  then have c: "check_consistency (parse f) = None"
    and d: "\<exists>(k, vs)\<in>set (groups (parse f)). \<exists>x\<in>set vs. \<exists>y\<in>set vs. snd x \<noteq> snd y"
    by simp_all
  show "analyze filename nodes cores threshold peak_flops peak_bytes fs
              \<in> {(Inl (AssertionError 83), fs), (Inl (AssertionError 84), fs),
                  (Inl (AssertionError 85), fs)}"
    using aggregate_divergent [OF d]
    by (auto simp: analyze_def assms c)
next
  fix t assume a: "aggregate (parse f) = Inr t"
  have "\<not> (\<exists>(k, vs)\<in>set (groups (parse f)). \<exists>x\<in>set vs. \<exists>y\<in>set vs. snd x \<noteq> snd y)"
    using aggregate_Inr_fields(9-11) [OF a] unfolding divergence_iff by simp
  then show "\<forall>(k, vs)\<in>set (groups (parse f)). \<forall>x\<in>set vs. \<forall>y\<in>set vs. snd x = snd y"
    by blast
next
  fix t assume a: "aggregate (parse f) = Inr t"
  show "tasks t = map (\<lambda>(k, vs). fst (snd (hd vs))) (groups (parse f))"
    unfolding aggregate_Inr_fields(2) [OF a]
    by (rule map_cong) (auto simp: hd_of_group dest: groups_nonempty)
next
  fix t assume a: "aggregate (parse f) = Inr t"
  show "flops t = map (\<lambda>(k, vs). fst (snd (snd (hd vs)))) (groups (parse f))"
    unfolding aggregate_Inr_fields(3) [OF a]
    by (rule map_cong) (auto simp: hd_of_group dest: groups_nonempty)
next
  fix t assume a: "aggregate (parse f) = Inr t"
  show "bytes t = map (\<lambda>(k, vs). snd (snd (snd (hd vs)))) (groups (parse f))"
    unfolding aggregate_Inr_fields(4) [OF a]
    by (rule map_cong) (auto simp: hd_of_group dest: groups_nonempty)
qed

text \<open>
  Witness for C6: a log whose only group has FLOP counts 100 and 101, and the example log,
  which aggregates.
\<close>

theorem group_homogeneity_enforced_witness:
  "example_fs ''mixed.log'' = Some (Log mixed_flops_log)
   \<and> check_consistency (parse (Log mixed_flops_log)) = None
   \<and> (\<exists>(k, vs)\<in>set (groups (parse (Log mixed_flops_log))).
         \<exists>x\<in>set vs. \<exists>y\<in>set vs. snd x \<noteq> snd y)
   \<and> analyze ''mixed.log'' 2 4 (Finite (1/2)) None None example_fs
       \<in> {(Inl (AssertionError 83), example_fs), (Inl (AssertionError 84), example_fs),
           (Inl (AssertionError 85), example_fs)}
   \<and> example_fs ''run.log'' = Some (Log example_log)
   \<and> aggregate (parse (Log example_log)) = Inr example_table
   \<and> tasks example_table = [8, 16] \<and> flops example_table = [100, 200]
   \<and> bytes example_table = [50, 60]"
proof -
  have h1: "example_fs ''mixed.log'' = Some (Log mixed_flops_log)"
    by (simp add: example_fs_def)
  have c: "check_consistency (parse (Log mixed_flops_log)) = None"
    by (simp add: check_mixed)
  have d: "\<exists>(k, vs)\<in>set (groups (parse (Log mixed_flops_log))).
         \<exists>x\<in>set vs. \<exists>y\<in>set vs. snd x \<noteq> snd y"
    by (simp add: groups_mixed) blast
  have h2: "example_fs ''run.log'' = Some (Log example_log)"
    by (simp add: example_fs_def)
  have a: "aggregate (parse (Log example_log)) = Inr example_table"
    by (simp add: aggregate_example)
  show ?thesis
    using h1 c d h2 a
      group_homogeneity_enforced
        [where fs = example_fs and filename = "''mixed.log''" and f = "Log mixed_flops_log",
         OF h1, of 2 4 "Finite (1/2)" None None]
      group_homogeneity_enforced
        [where fs = example_fs and filename = "''run.log''" and f = "Log example_log",
         OF h2, of 2 4 "Finite (1/2)" None None]
    by (simp add: example_table_def)
qed

text \<open>
  C7, as amended. After a successful aggregation the \<open>std\<close> entry of each row is the
  population standard deviation of the group's elapsed values as \<^verbatim>\<open>numpy.std\<close> computes
  it: the square root of the sum of the squared deviations from the mean, divided by the
  size of the group. For a group of one record whose elapsed value is finite it is 0; for a
  group of one record whose elapsed value is not finite it is NaN. The column is written
  unchanged.
\<close>

theorem std_is_population_std:
  assumes "aggregate c = Inr t"
  shows "std t = map (\<lambda>(k, vs).
                   fsqrt (fdiv (numpy_sum (map (\<lambda>x. fmul (fsub x (numpy_mean (elapsed_of vs)))
                                                         (fsub x (numpy_mean (elapsed_of vs))))
                                               (elapsed_of vs)))
                               (int2f (int (length vs)))))
                 (groups c)
     \<and> (\<forall>i<length (groups c). \<forall>x m. snd (groups c ! i) = [(Finite x, m)] \<longrightarrow>
            std t ! i = Finite 0)
     \<and> (\<forall>i<length (groups c). \<forall>x m. snd (groups c ! i) = [(x, m)] \<and> (\<forall>y. x \<noteq> Finite y) \<longrightarrow>
            std t ! i = NaN)
     \<and> map_of (derive (compute nodes cores peak_flops peak_bytes) t) ''std''
         = Some (FloatCol (std t))"
proof -
  have s: "std t = map (\<lambda>(k, vs). numpy_std (elapsed_of vs)) (groups c)"
    using assms by (rule aggregate_Inr_fields(7))
  have a: "std t = map (\<lambda>(k, vs).
                   fsqrt (fdiv (numpy_sum (map (\<lambda>x. fmul (fsub x (numpy_mean (elapsed_of vs)))
                                                         (fsub x (numpy_mean (elapsed_of vs))))
                                               (elapsed_of vs)))
                               (int2f (int (length vs)))))
                 (groups c)"
    by (simp add: s numpy_std_unfold)
  have b: "std t ! i = Finite 0"
    if "i < length (groups c)" "snd (groups c ! i) = [(Finite x, m)]" for i x m
    using that by (simp add: s split_def elapsed_of_def numpy_std_single_finite)
  have n: "std t ! i = NaN"
    if "i < length (groups c)" "snd (groups c ! i) = [(x, m)]" "\<forall>y. x \<noteq> Finite y" for i x m
    using that by (simp add: s split_def elapsed_of_def numpy_std_single_not_finite)
  show ?thesis
    using a b n map_of_derive_compute(6) [of nodes cores peak_flops peak_bytes t] by blast
qed

text \<open>Witness for C7: the second group of the example log is one record of 5 seconds.\<close>

theorem std_is_population_std_witness:
  "aggregate example_log = Inr example_table
   \<and> snd (groups example_log ! 1) = [(Finite 5, 16, 200, 60)]
   \<and> std example_table ! 1 = Finite 0"
proof -
  have h: "aggregate example_log = Inr example_table"
    by (rule aggregate_example)
  show ?thesis
    using h std_is_population_std [OF h, of 2 4 None None]
    by (simp add: groups_example_log example_table_def)
qed

text \<open>
  Counterexample to C7 as stated: the only record of this log has the elapsed time
  \<^verbatim>\<open>1e999\<close>, which \<^verbatim>\<open>float\<close> reads as infinity. Its group has exactly one record, and
  the \<open>std\<close> written is NaN, not 0.
\<close>

theorem infinite_elapsed_std_counterexample:
  "groups inf_log = [(4, [(PosInf, 8, 100, 50)])]
   \<and> analyze ''inf.log'' 2 4 (Finite (1/2)) None None example_fs
       = (Inr (),
          example_fs(''inf.csv'' \<mapsto>
            Csv [''elapsed'', ''iterations'', ''steps'', ''tasks'', ''flops'', ''bytes'',
                 ''width'', ''std'', ''reps'', ''time_per_task'']
                [[SciCell PosInf, IntCell 10, IntCell 4, IntCell 8, IntCell 100, IntCell 50,
                  IntCell 2, SciCell NaN, IntCell 1, SciCell PosInf]]))
   \<and> NaN \<noteq> Finite 0"
proof -
  have h: "example_fs ''inf.log'' = Some (Log inf_log)"
    by (simp add: example_fs_def)
  have w: "write_csv (derive (compute 2 4 None None)
             \<lparr>elapsed = [PosInf], iterations = [10], steps = [4], tasks = [8], flops = [100],
              bytes = [50], width = [2], std = [NaN], reps = [1]\<rparr>)
     = Csv [''elapsed'', ''iterations'', ''steps'', ''tasks'', ''flops'', ''bytes'',
                 ''width'', ''std'', ''reps'', ''time_per_task'']
                [[SciCell PosInf, IntCell 10, IntCell 4, IntCell 8, IntCell 100, IntCell 50,
                  IntCell 2, SciCell NaN, IntCell 1, SciCell PosInf]]"
    by (simp add: derive_def compute_def items_def i2f_def int2f_def write_csv_def
        zip_star_one_row)
  show ?thesis
    by (simp add: groups_inf analyze_def h check_inf aggregate_inf w splitext_examples)
qed

text \<open>
  C8. \<open>threshold\<close> and \<open>summary\<close> are not read: two runs that differ only in them raise the
  same exception or none, and leave the same file system, so the same CSV files.
\<close>

theorem threshold_and_summary_unused:
  "driver inputs summary nodes cores threshold peak_flops peak_bytes fs
     = driver inputs summary' nodes cores threshold' peak_flops peak_bytes fs
   \<and> analyze filename nodes cores threshold peak_flops peak_bytes fs
     = analyze filename nodes cores threshold' peak_flops peak_bytes fs"
  using driver_loop_threshold [of inputs nodes cores threshold peak_flops peak_bytes fs threshold']
    analyze_threshold [of filename nodes cores threshold peak_flops peak_bytes fs threshold']
  by (auto simp: driver_def)

text \<open>
  C9. A file in which no pattern matches passes the four consistency checks; the
  aggregation then raises \<open>ValueError\<close> at the unpacking of line 77 (ten names, no values),
  and no CSV is written.
\<close>

theorem empty_log_fails_in_aggregation:
  assumes "fs filename = Some f"
    and "parse f = \<lparr>elapsed = [], iterations = [], steps = [], tasks = [], flops = [],
                    bytes = [], width = []\<rparr>"
  shows "same [length (elapsed (parse f)), length (iterations (parse f)),
               length (steps (parse f)), length (tasks (parse f)), length (flops (parse f)),
               length (bytes (parse f)), length (width (parse f))]
     \<and> same (iterations (parse f))
     \<and> same (width (parse f))
     \<and> list_all (\<lambda>(t, s, w). t = s * w)
                 (zip (tasks (parse f)) (zip (steps (parse f)) (width (parse f))))
     \<and> check_consistency (parse f) = None
     \<and> aggregate (parse f) = Inl (ValueError 10 0)
     \<and> analyze filename nodes cores threshold peak_flops peak_bytes fs
         = (Inl (ValueError 10 0), fs)"
proof -
  have chk: "check_consistency (parse f) = None"
    by (simp add: assms(2) check_consistency_def)
  have "groups (parse f) = []"
    by (simp add: assms(2) groups_def group_by_def)
  then have agg: "aggregate (parse f) = Inl (ValueError 10 0)"
    by (rule aggregate_empty_groups)
  have "analyze filename nodes cores threshold peak_flops peak_bytes fs
         = (Inl (ValueError 10 0), fs)"
    by (simp add: analyze_def assms(1) chk agg)
  then show ?thesis
    using chk agg by (simp add: assms(2))
qed

text \<open>Witness for C9: the empty log.\<close>

theorem empty_log_fails_in_aggregation_witness:
  "example_fs ''empty.log'' = Some (Log empty_log)
   \<and> check_consistency empty_log = None
   \<and> analyze ''empty.log'' 2 4 (Finite (1/2)) None None example_fs = (Inl (ValueError 10 0), example_fs)"
proof -
  have h: "example_fs ''empty.log'' = Some (Log empty_log)"
    by (simp add: example_fs_def)
  have p: "parse (Log empty_log) = \<lparr>elapsed = [], iterations = [], steps = [], tasks = [],
      flops = [], bytes = [], width = []\<rparr>"
    by (simp add: empty_log_def)
  show ?thesis
    using h empty_log_fails_in_aggregation
            [where fs = example_fs and filename = "''empty.log''" and f = "Log empty_log",
             OF h p, of 2 4 "Finite (1/2)" None None]
    by simp
qed

text \<open>
  C10. A peak parameter of 0.0 counts as given for the exclusivity test of line 106, which
  tests for \<^verbatim>\<open>None\<close>; given alone, it selects no efficiency formula, since lines 58 and
  60 test the truth value: the columns are those of a run without peak parameters, and so
  is the whole run.
\<close>

theorem zero_peak_supplied_but_no_efficiency:
  "driver inputs summary nodes cores threshold (Some (Finite 0)) (Some pb) fs = (Inl ConfigError, fs)
   \<and> driver inputs summary nodes cores threshold (Some pf) (Some (Finite 0)) fs = (Inl ConfigError, fs)
   \<and> map fst (derive (compute nodes cores (Some (Finite 0)) None) t)
       = [''elapsed'', ''iterations'', ''steps'', ''tasks'', ''flops'', ''bytes'', ''width'',
          ''std'', ''reps'', ''time_per_task'']
   \<and> map fst (derive (compute nodes cores None (Some (Finite 0))) t)
       = [''elapsed'', ''iterations'', ''steps'', ''tasks'', ''flops'', ''bytes'', ''width'',
          ''std'', ''reps'', ''time_per_task'']
   \<and> driver inputs summary nodes cores threshold (Some (Finite 0)) None fs
       = driver inputs summary nodes cores threshold None None fs
   \<and> driver inputs summary nodes cores threshold None (Some (Finite 0)) fs
       = driver inputs summary nodes cores threshold None None fs"
proof -
  have names: "map fst (derive (compute nodes cores None None) t)
       = [''elapsed'', ''iterations'', ''steps'', ''tasks'', ''flops'', ''bytes'', ''width'',
          ''std'', ''reps'', ''time_per_task'']"
    by (simp add: derive_def items_def compute_def)
  have d1: "driver inputs summary nodes cores threshold (Some (Finite 0)) None fs
       = driver inputs summary nodes cores threshold None None fs"
    using driver_loop_cong_compute [OF compute_zero_peak(1), of inputs nodes cores threshold fs]
    by (simp add: driver_def)
  have d2: "driver inputs summary nodes cores threshold None (Some (Finite 0)) fs
       = driver inputs summary nodes cores threshold None None fs"
    using driver_loop_cong_compute [OF compute_zero_peak(2), of inputs nodes cores threshold fs]
    by (simp add: driver_def)
  show ?thesis
    using names d1 d2 by (simp add: driver_def compute_zero_peak)
qed

end
